theory Spec2Isabelle
  imports Main "HOL-Library.Sublist"
begin

section \<open>Python strings\<close>

text \<open>
  A Python \<open>str\<close> is a sequence of Unicode code points; a code point is a natural
  number here. \<open>lit\<close> turns an ASCII literal of the source into such a sequence.
\<close>

type_synonym pystr = "nat list"

type_synonym bytes = "nat list"

definition lit :: "string \<Rightarrow> pystr" where
  "lit s = map of_char s"

text \<open>
  The code points for which \<open>str.isspace\<close> holds; \<open>str.split()\<close> and
  \<open>str.strip()\<close> without arguments separate and trim on exactly these.
\<close>

definition isspace :: "nat \<Rightarrow> bool" where
  "isspace c \<longleftrightarrow>
     (9 \<le> c \<and> c \<le> 13) \<or> (28 \<le> c \<and> c \<le> 32) \<or> c = 133 \<or> c = 160 \<or> c = 5760 \<or>
     (8192 \<le> c \<and> c \<le> 8202) \<or> c = 8232 \<or> c = 8233 \<or> c = 8239 \<or> c = 8287 \<or>
     c = 12288"

text \<open>
  \<open>s.split()\<close>: the maximal runs of non-whitespace code points, in order. The first
  argument is the word being read.
\<close>

fun split_from :: "pystr \<Rightarrow> pystr \<Rightarrow> pystr list" where
  "split_from cur [] = (if cur = [] then [] else [cur])"
| "split_from cur (c # cs) =
     (if isspace c then (if cur = [] then split_from [] cs else cur # split_from [] cs)
      else split_from (cur @ [c]) cs)"

definition split :: "pystr \<Rightarrow> pystr list" where
  "split s = split_from [] s"

text \<open>\<open>s.strip()\<close>: \<open>s\<close> without its leading and trailing whitespace.\<close>

definition strip :: "pystr \<Rightarrow> pystr" where
  "strip s = rev (dropWhile isspace (rev (dropWhile isspace s)))"

text \<open>\<open>str(n)\<close> for a non-negative integer: its decimal digits.\<close>

fun str_nat :: "nat \<Rightarrow> pystr" where
  "str_nat n = (if n < 10 then [48 + n] else str_nat (n div 10) @ [48 + n mod 10])"

declare str_nat.simps [simp del]

section \<open>The collaborators and what the program does to its surroundings\<close>

text \<open>
  A Python exception, with the text \<open>str(e)\<close> that the error messages embed.
\<close>

datatype exn = Exception pystr

fun message :: "exn \<Rightarrow> pystr" where
  "message (Exception m) = m"

text \<open>
  The calls that leave the program, in the order they are made: the temporary file
  written for Whisper, the transcription, \<open>os.remove\<close>, \<open>load_models\<close>, the
  summarizer, \<open>nltk.sent_tokenize\<close>, the question generator, and the messages shown
  with \<open>st.error\<close>.
\<close>

datatype effect =
    WriteTemp bytes
  | Transcribe pystr
  | OsRemove pystr
  | LoadModels
  | Summarize pystr
  | SentTokenize pystr
  | AskQuestion pystr
  | StError pystr

text \<open>
  The libraries behind these calls are not part of the program. Each is a parameter:
  a function of its argument and of the calls made so far, so that a collaborator may
  answer the same argument differently from one call to the next (the question generator
  samples, \<open>do_sample=True\<close>) and may fail at any call.

  \<^item> \<open>write_temp\<close>: \<open>NamedTemporaryFile(suffix=".webm", delete=False)\<close> and
    \<open>f.write\<close>; the name of the file written, or the exception raised.
  \<^item> \<open>whisper\<close>: the body of the \<open>try\<close> in \<open>transcribe_with_whisper\<close>,
    \<open>load_whisper().transcribe(temp_path, fp16=False)["text"]\<close>.
  \<^item> \<open>os_remove\<close>: \<open>None\<close> when the file was removed, the exception otherwise.
  \<^item> \<open>load_models\<close>: \<open>None\<close> when the two pipelines were handed out, the exception
    otherwise.
  \<^item> \<open>summarizer\<close>: the body of the \<open>try\<close> in \<open>generate_summary\<close>.
  \<^item> \<open>sent_tokenize\<close>: \<open>nltk.sent_tokenize\<close>.
  \<^item> \<open>qg_pipe\<close>: \<open>qg_pipe(s, max_length=64, do_sample=True)[0]['generated_text']\<close>;
    \<open>None\<close> when anything in the \<open>try\<close> of the loop raises (the handler is a bare
    \<open>except\<close>).
\<close>

record env =
  write_temp :: "effect list \<Rightarrow> bytes \<Rightarrow> exn + pystr"
  whisper :: "effect list \<Rightarrow> pystr \<Rightarrow> exn + pystr"
  os_remove :: "effect list \<Rightarrow> pystr \<Rightarrow> exn option"
  load_models :: "effect list \<Rightarrow> exn option"
  summarizer :: "effect list \<Rightarrow> pystr \<Rightarrow> exn + pystr"
  sent_tokenize :: "effect list \<Rightarrow> pystr \<Rightarrow> exn + pystr list"
  qg_pipe :: "effect list \<Rightarrow> pystr \<Rightarrow> pystr option"

section \<open>The session\<close>

text \<open>
  \<open>st.session_state\<close>, restricted to the five keys the program uses. A key is absent
  (\<open>Absent\<close>) or holds a Python value, which is \<open>None\<close> or a value of the type the
  program stores under that key.
\<close>

datatype 'a slot = Absent | Holds "'a option"

record flashcard =
  question :: pystr
  answer :: pystr

record session_state =
  audio_data :: "bytes slot"
  file_name :: "pystr slot"
  transcription :: "pystr slot"
  summary :: "pystr slot"
  flashcards :: "flashcard list slot"

text \<open>
  What a run of the program works on: the session, the temporary files on disk, and the
  calls made so far.
\<close>

record world =
  session :: session_state
  files :: "pystr set"
  trace :: "effect list"

definition emit :: "effect \<Rightarrow> world \<Rightarrow> world" where
  "emit e w = w\<lparr>trace := trace w @ [e]\<rparr>"

section \<open>The flashcard generator\<close>

text \<open>The filter of \<open>good_sentences\<close>: \<open>10 < len(s.split()) < 50\<close>.\<close>

definition good_sentence :: "pystr \<Rightarrow> bool" where
  "good_sentence s \<longleftrightarrow> 10 < length (split s) \<and> length (split s) < 50"

text \<open>
  The loop over \<open>good_sentences[:10]\<close>: a card is appended when the question generator
  answers, and the sentence is passed over when it raises.
\<close>

fun flashcard_loop :: "env \<Rightarrow> pystr list \<Rightarrow> flashcard list \<Rightarrow> world \<Rightarrow> flashcard list \<times> world" where
  "flashcard_loop env [] cards w = (cards, w)"
| "flashcard_loop env (s # ss) cards w =
     (case qg_pipe env (trace w) s of
        Some q \<Rightarrow>
          flashcard_loop env ss (cards @ [\<lparr>question = strip q, answer = strip s\<rparr>])
            (emit (AskQuestion s) w)
      | None \<Rightarrow> flashcard_loop env ss cards (emit (AskQuestion s) w))"

text \<open>
  \<open>generate_flashcards\<close>. \<open>load_models\<close> and \<open>sent_tokenize\<close> are called outside any
  \<open>try\<close>, so their exceptions leave the function.
\<close>

definition generate_flashcards :: "env \<Rightarrow> pystr \<Rightarrow> world \<Rightarrow> (exn + flashcard list) \<times> world" where
  "generate_flashcards env text w =
     (case load_models env (trace w) of
        Some e \<Rightarrow> (Inl e, emit LoadModels w)
      | None \<Rightarrow>
          (let w1 = emit LoadModels w in
           case sent_tokenize env (trace w1) text of
             Inl e \<Rightarrow> (Inl e, emit (SentTokenize text) w1)
           | Inr sentences \<Rightarrow>
               (let good_sentences = filter good_sentence sentences;
                    (cards, w2) = flashcard_loop env (take 10 good_sentences) []
                                    (emit (SentTokenize text) w1)
                in (Inr cards, w2))))"

section \<open>Transcription and summary\<close>

text \<open>
  \<open>transcribe_with_whisper\<close>. The temporary file is written before the \<open>try\<close>, so an
  exception there leaves the function. Whatever the \<open>try\<close> does, the \<open>finally\<close>
  calls \<open>os.remove\<close>, and the bare \<open>except: pass\<close> around it drops its exception. The
  result is the text, or \<open>None\<close> after \<open>st.error\<close>.
\<close>

definition transcribe_with_whisper :: "env \<Rightarrow> bytes \<Rightarrow> world \<Rightarrow> (exn + pystr option) \<times> world" where
  "transcribe_with_whisper env audio_bytes w =
     (case write_temp env (trace w) audio_bytes of
        Inl e \<Rightarrow> (Inl e, emit (WriteTemp audio_bytes) w)
      | Inr temp_path \<Rightarrow>
          (let w1 = (emit (WriteTemp audio_bytes) w)\<lparr>files := insert temp_path (files w)\<rparr>;
               (result, w2) =
                 (case whisper env (trace w1) temp_path of
                    Inr text \<Rightarrow> (Some text, emit (Transcribe temp_path) w1)
                  | Inl e \<Rightarrow>
                      (None, emit (StError (lit ''Transcription failed: '' @ message e))
                               (emit (Transcribe temp_path) w1)));
               w3 =
                 (case os_remove env (trace w2) temp_path of
                    None \<Rightarrow> (emit (OsRemove temp_path) w2)\<lparr>files := files w2 - {temp_path}\<rparr>
                  | Some e \<Rightarrow> emit (OsRemove temp_path) w2)
           in (Inr result, w3)))"

text \<open>
  \<open>generate_summary\<close>. \<open>load_models\<close> is called before the \<open>try\<close>; an exception of
  the summarizer is reported with \<open>st.error\<close> and the result is \<open>None\<close>.
\<close>

definition generate_summary :: "env \<Rightarrow> pystr \<Rightarrow> world \<Rightarrow> (exn + pystr option) \<times> world" where
  "generate_summary env text w =
     (case load_models env (trace w) of
        Some e \<Rightarrow> (Inl e, emit LoadModels w)
      | None \<Rightarrow>
          (let w1 = emit LoadModels w in
           case summarizer env (trace w1) text of
             Inr s \<Rightarrow> (Inr (Some s), emit (Summarize text) w1)
           | Inl e \<Rightarrow>
               (Inr None, emit (StError (lit ''Summary failed: '' @ message e))
                            (emit (Summarize text) w1))))"

section \<open>State management\<close>

datatype key = Audio_data | File_name | Transcription | Summary | Flashcards

fun has_key :: "key \<Rightarrow> session_state \<Rightarrow> bool" where
  "has_key Audio_data st = (audio_data st \<noteq> Absent)"
| "has_key File_name st = (file_name st \<noteq> Absent)"
| "has_key Transcription st = (transcription st \<noteq> Absent)"
| "has_key Summary st = (summary st \<noteq> Absent)"
| "has_key Flashcards st = (flashcards st \<noteq> Absent)"

text \<open>\<open>st.session_state[key] = None\<close>\<close>

fun set_none :: "key \<Rightarrow> session_state \<Rightarrow> session_state" where
  "set_none Audio_data st = st\<lparr>audio_data := Holds None\<rparr>"
| "set_none File_name st = st\<lparr>file_name := Holds None\<rparr>"
| "set_none Transcription st = st\<lparr>transcription := Holds None\<rparr>"
| "set_none Summary st = st\<lparr>summary := Holds None\<rparr>"
| "set_none Flashcards st = st\<lparr>flashcards := Holds None\<rparr>"

text \<open>\<open>del st.session_state[key]\<close>\<close>

fun del_key :: "key \<Rightarrow> session_state \<Rightarrow> session_state" where
  "del_key Audio_data st = st\<lparr>audio_data := Absent\<rparr>"
| "del_key File_name st = st\<lparr>file_name := Absent\<rparr>"
| "del_key Transcription st = st\<lparr>transcription := Absent\<rparr>"
| "del_key Summary st = st\<lparr>summary := Absent\<rparr>"
| "del_key Flashcards st = st\<lparr>flashcards := Absent\<rparr>"

text \<open>The loop at the top of the script, which every run executes first.\<close>

definition init_state :: "session_state \<Rightarrow> session_state" where
  "init_state st =
     fold (\<lambda>key st. if \<not> has_key key st then set_none key st else st)
       [Audio_data, File_name, Transcription, Summary, Flashcards] st"

definition reset_app :: "session_state \<Rightarrow> session_state" where
  "reset_app st =
     (let keys_to_clear = [Audio_data, File_name, Transcription, Summary, Flashcards]
      in fold (\<lambda>key st. if has_key key st then del_key key st else st) keys_to_clear st)"

text \<open>The \<open>st.session_state\<close> of a session that has just been opened: no key yet.\<close>

definition new_session :: session_state where
  "new_session =
     \<lparr>audio_data = Absent, file_name = Absent, transcription = Absent, summary = Absent,
      flashcards = Absent\<rparr>"

section \<open>The script\<close>

text \<open>
  What the widgets hand to one run of the script: whether the run was started by a click
  on "Start Over" (its callback \<open>reset_app\<close> runs before the script), the value of
  \<open>audio['bytes']\<close> when the recorder returned a recording, the name and content of an
  uploaded file, whether "Export All" was clicked, and the two renderings of
  \<open>datetime.now()\<close>, \<open>'%Y%m%d_%H%M%S'\<close> and \<open>'%Y-%m-%d %H:%M:%S'\<close>.
\<close>

record ui =
  start_over :: bool
  mic :: "bytes option"
  uploaded :: "(pystr \<times> bytes) option"
  export_all :: bool
  now_stamp :: pystr
  now_text :: pystr

text \<open>
  How a run ends: at the bottom of the script, with the report offered for download
  (file name and text) when "Export All" was clicked; at \<open>st.rerun()\<close>, after which
  the framework starts the script again; or with an exception that nothing caught.
\<close>

datatype outcome = Finished "(pystr \<times> pystr) option" | Rerun | Raised exn

definition attribute_error :: exn where
  "attribute_error = Exception (lit ''AttributeError'')"

definition nl :: pystr where
  "nl = [10]"

text \<open>The first branch of the script: no audio yet.\<close>

definition input_block :: "ui \<Rightarrow> world \<Rightarrow> world \<times> outcome" where
  "input_block ui w =
     (if (case mic ui of Some b \<Rightarrow> b \<noteq> [] | None \<Rightarrow> False) then
        (w\<lparr>session := (session w)
             \<lparr>file_name := Holds (Some (lit ''recording_'' @ now_stamp ui @ lit ''.webm'')),
              audio_data := Holds (mic ui)\<rparr>\<rparr>, Rerun)
      else
        (case uploaded ui of
           Some (name, content) \<Rightarrow>
             (w\<lparr>session := (session w)
                  \<lparr>file_name := Holds (Some name), audio_data := Holds (Some content)\<rparr>\<rparr>, Rerun)
         | None \<Rightarrow> (w, Finished None)))"

text \<open>
  The branch \<open>if st.session_state.transcription is None\<close>: transcribe, store the
  result, and summarize and generate flashcards when the result is truthy (a non-empty
  string).
\<close>

definition pipeline_block :: "env \<Rightarrow> bytes \<Rightarrow> world \<Rightarrow> world \<times> outcome" where
  "pipeline_block env audio w =
     (case transcribe_with_whisper env audio w of
        (Inl e, w1) \<Rightarrow> (w1, Raised e)
      | (Inr transcription', w1) \<Rightarrow>
          (let w2 = w1\<lparr>session := (session w1)\<lparr>transcription := Holds transcription'\<rparr>\<rparr> in
           case transcription' of
             None \<Rightarrow> (w2, Finished None)
           | Some text \<Rightarrow>
               if text = [] then (w2, Finished None)
               else
                 (case generate_summary env text w2 of
                    (Inl e, w3) \<Rightarrow> (w3, Raised e)
                  | (Inr summary', w3) \<Rightarrow>
                      (let w4 = w3\<lparr>session := (session w3)\<lparr>summary := Holds summary'\<rparr>\<rparr> in
                       case generate_flashcards env text w4 of
                         (Inl e, w5) \<Rightarrow> (w5, Raised e)
                       | (Inr cards, w5) \<Rightarrow>
                           (w5\<lparr>session := (session w5)\<lparr>flashcards := Holds (Some cards)\<rparr>\<rparr>,
                            Rerun)))))"

text \<open>
  The loop of "Export All": one block per card, numbered from \<open>i + 1\<close> where
  \<open>enumerate\<close> counts \<open>i\<close> from 0.
\<close>

fun report_cards :: "nat \<Rightarrow> flashcard list \<Rightarrow> pystr \<Rightarrow> pystr" where
  "report_cards i [] full_report = full_report"
| "report_cards i (c # cards) full_report =
     report_cards (Suc i) cards
       (full_report @ nl @ lit ''Card '' @ str_nat (i + 1) @ nl @ lit ''Q: '' @ question c @ nl @
        lit ''A: '' @ answer c @ nl)"

text \<open>
  The text built under "Export All". \<open>None\<close> is formatted as \<open>None\<close> by the f-string;
  \<open>summary or 'No summary'\<close> and \<open>flashcards or []\<close> replace \<open>None\<close> and the empty
  value.
\<close>

definition full_report :: "pystr option \<Rightarrow> pystr \<Rightarrow> pystr \<Rightarrow> pystr option \<Rightarrow> flashcard list option \<Rightarrow> pystr" where
  "full_report name generated text summary' cards =
     report_cards 0 (case cards of None \<Rightarrow> [] | Some cs \<Rightarrow> cs)
       (lit ''LECTURE ANALYSIS REPORT'' @ nl @
        lit ''File: '' @ (case name of None \<Rightarrow> lit ''None'' | Some n \<Rightarrow> n) @ nl @
        lit ''Generated: '' @ generated @ nl @ nl @
        lit ''=== TRANSCRIPTION ==='' @ nl @ text @ nl @ nl @
        lit ''=== SUMMARY ==='' @ nl @
        (case summary' of None \<Rightarrow> lit ''No summary''
         | Some s \<Rightarrow> if s = [] then lit ''No summary'' else s) @ nl @ nl @
        lit ''=== FLASHCARDS ==='' @ nl)"

text \<open>
  The branch that shows the results. Of what it renders, the model keeps the report of
  "Export All"; the branch writes nothing to the session.
\<close>

definition results_block :: "ui \<Rightarrow> pystr option \<Rightarrow> pystr \<Rightarrow> world \<Rightarrow> world \<times> outcome" where
  "results_block ui name text w =
     (case summary (session w) of
        Absent \<Rightarrow> (w, Raised attribute_error)
      | Holds summary' \<Rightarrow>
          (case flashcards (session w) of
             Absent \<Rightarrow> (w, Raised attribute_error)
           | Holds cards \<Rightarrow>
               if export_all ui then
                 (w, Finished (Some (lit ''lecture_analysis_'' @ now_stamp ui @ lit ''.txt'',
                                     full_report name (now_text ui) text summary' cards)))
               else (w, Finished None)))"

text \<open>
  One run of the script, from the state-management loop to the footer. Reading a key
  that is absent raises \<open>AttributeError\<close>.
\<close>

definition script :: "env \<Rightarrow> ui \<Rightarrow> world \<Rightarrow> world \<times> outcome" where
  "script env ui w0 =
     (let w = w0\<lparr>session := init_state (session w0)\<rparr> in
      case audio_data (session w) of
        Absent \<Rightarrow> (w, Raised attribute_error)
      | Holds None \<Rightarrow> input_block ui w
      | Holds (Some audio) \<Rightarrow>
          (case file_name (session w) of
             Absent \<Rightarrow> (w, Raised attribute_error)
           | Holds name \<Rightarrow>
               (case transcription (session w) of
                  Absent \<Rightarrow> (w, Raised attribute_error)
                | Holds None \<Rightarrow> pipeline_block env audio w
                | Holds (Some text) \<Rightarrow> results_block ui name text w)))"

text \<open>
  One interaction: the callback of "Start Over" when that button started the run, then
  the script.
\<close>

definition interaction :: "env \<Rightarrow> ui \<Rightarrow> world \<Rightarrow> world \<times> outcome" where
  "interaction env ui w =
     script env ui (if start_over ui then w\<lparr>session := reset_app (session w)\<rparr> else w)"

text \<open>A sequence of interactions, each with the collaborators as they behave then.\<close>

fun interactions :: "(env \<times> ui) list \<Rightarrow> world \<Rightarrow> world" where
  "interactions [] w = w"
| "interactions ((env, ui) # rest) w = interactions rest (fst (interaction env ui w))"

section \<open>The flashcard generator, as the specification words it\<close>

text \<open>
  The candidates: of the sentences that qualify, in document order, the first ten at
  most.
\<close>

definition candidates :: "pystr list \<Rightarrow> pystr list" where
  "candidates sentences = take 10 (filter good_sentence sentences)"

text \<open>
  What the question generator answers when it is asked the sentences one after the
  other, starting after the calls \<open>h\<close>.
\<close>

fun qg_outcomes :: "env \<Rightarrow> effect list \<Rightarrow> pystr list \<Rightarrow> pystr option list" where
  "qg_outcomes env h [] = []"
| "qg_outcomes env h (s # ss) = qg_pipe env h s # qg_outcomes env (h @ [AskQuestion s]) ss"

text \<open>The card of a candidate and its outcome: none when the call failed.\<close>

definition card_for :: "pystr \<times> pystr option \<Rightarrow> flashcard option" where
  "card_for p =
     (case p of (s, r) \<Rightarrow> map_option (\<lambda>q. \<lparr>question = strip q, answer = strip s\<rparr>) r)"

text \<open>The text of the report that a run offers, if it offers one.\<close>

fun report_text :: "outcome \<Rightarrow> pystr option" where
  "report_text (Finished (Some (name, content))) = Some content"
| "report_text (Finished None) = None"
| "report_text Rerun = None"
| "report_text (Raised e) = None"

text \<open>The block of the report for the card at position \<open>i\<close>, counted from 0.\<close>

definition card_block :: "nat \<times> flashcard \<Rightarrow> pystr" where
  "card_block p =
     (case p of (i, c) \<Rightarrow>
        nl @ lit ''Card '' @ str_nat (i + 1) @ nl @ lit ''Q: '' @ question c @ nl @
        lit ''A: '' @ answer c @ nl)"

text \<open>The number that a string of decimal digits denotes.\<close>

definition decimal :: "pystr \<Rightarrow> nat" where
  "decimal ds = foldl (\<lambda>a d. 10 * a + (d - 48)) 0 ds"

section \<open>Concrete collaborators and inputs\<close>

text \<open>A tokenizer that ends a sentence at every full stop.\<close>

fun dot_sentences :: "pystr \<Rightarrow> pystr \<Rightarrow> pystr list" where
  "dot_sentences cur [] = (if cur = [] then [] else [cur])"
| "dot_sentences cur (c # cs) =
     (if c = 46 then (cur @ [c]) # dot_sentences [] cs else dot_sentences (cur @ [c]) cs)"

text \<open>Collaborators that all succeed.\<close>

definition demo_env :: env where
  "demo_env =
     \<lparr>write_temp = (\<lambda>h b. Inr (lit ''/tmp/tmpa.webm'')),
      whisper = (\<lambda>h p. Inr (lit ''s1 a b c d e f g h i j. short one.'')),
      os_remove = (\<lambda>h p. None),
      load_models = (\<lambda>h. None),
      summarizer = (\<lambda>h t. Inr (lit ''gist'')),
      sent_tokenize = (\<lambda>h t. Inr (dot_sentences [] t)),
      qg_pipe = (\<lambda>h s. Some (lit '' what? ''))\<rparr>"

definition boom :: exn where
  "boom = Exception (lit ''boom'')"

definition new_world :: world where
  "new_world = \<lparr>session = new_session, files = {}, trace = []\<rparr>"

text \<open>A session that holds audio and has not been transcribed.\<close>

definition acquired_world :: world where
  "acquired_world =
     \<lparr>session =
        \<lparr>audio_data = Holds (Some [26, 69]), file_name = Holds (Some (lit ''a.webm'')),
         transcription = Holds None, summary = Holds None, flashcards = Holds None\<rparr>,
      files = {}, trace = []\<rparr>"

text \<open>A session with its results.\<close>

definition ready_world :: world where
  "ready_world =
     \<lparr>session =
        \<lparr>audio_data = Holds (Some [26, 69]), file_name = Holds (Some (lit ''a.webm'')),
         transcription = Holds (Some (lit ''hello'')), summary = Holds None,
         flashcards = Holds (Some [\<lparr>question = lit ''q1'', answer = lit ''a1''\<rparr>,
                                   \<lparr>question = lit ''q2'', answer = lit ''a2''\<rparr>])\<rparr>,
      files = {}, trace = []\<rparr>"

definition idle_ui :: ui where
  "idle_ui =
     \<lparr>start_over = False, mic = None, uploaded = None, export_all = False,
      now_stamp = lit ''20240101_120000'', now_text = lit ''2024-01-01 12:00:00''\<rparr>"

definition export_ui :: ui where
  "export_ui = idle_ui\<lparr>export_all := True\<rparr>"

text \<open>Eleven sentences of eleven words each, and five of them.\<close>

definition five_sentences :: pystr where
  "five_sentences =
     lit ''s1 a b c d e f g h i j. s2 a b c d e f g h i j. s3 a b c d e f g h i j. s4 a b c d e f g h i j. s5 a b c d e f g h i j.''"

definition eleven_sentences :: pystr where
  "eleven_sentences =
     five_sentences @
     lit '' s6 a b c d e f g h i j. s7 a b c d e f g h i j. s8 a b c d e f g h i j. s9 a b c d e f g h i j. sA a b c d e f g h i j. sB a b c d e f g h i j.''"

text \<open>The scenario of the specification: one sentence of five words.\<close>

definition short_test :: pystr where
  "short_test = lit ''This is a short test.''"

text \<open>What the generator makes of the eleven sentences with these collaborators.\<close>

definition ten_cards :: "flashcard list" where
  "ten_cards =
     map (\<lambda>a. \<lparr>question = lit ''what?'', answer = lit a\<rparr>)
       [''s1 a b c d e f g h i j.'', ''s2 a b c d e f g h i j.'', ''s3 a b c d e f g h i j.'',
        ''s4 a b c d e f g h i j.'', ''s5 a b c d e f g h i j.'', ''s6 a b c d e f g h i j.'',
        ''s7 a b c d e f g h i j.'', ''s8 a b c d e f g h i j.'', ''s9 a b c d e f g h i j.'',
        ''sA a b c d e f g h i j.'']"

definition asked_world :: world where
  "asked_world =
     new_world\<lparr>trace := [LoadModels, SentTokenize eleven_sentences] @
                  map AskQuestion (take 10 (dot_sentences [] eleven_sentences))\<rparr>"

text \<open>A question generator that fails on the third of the five sentences.\<close>

definition flaky_env :: env where
  "flaky_env =
     demo_env\<lparr>qg_pipe :=
       (\<lambda>h s. if s = lit '' s3 a b c d e f g h i j.'' then None else Some (lit '' what? ''))\<rparr>"

definition four_cards :: "flashcard list" where
  "four_cards =
     map (\<lambda>a. \<lparr>question = lit ''what?'', answer = lit a\<rparr>)
       [''s1 a b c d e f g h i j.'', ''s2 a b c d e f g h i j.'', ''s4 a b c d e f g h i j.'',
        ''s5 a b c d e f g h i j.'']"

text \<open>
  The calls on record when \<open>transcribe_with_whisper\<close> reaches its \<open>finally\<close>, for
  the temporary file \<open>p\<close> and the calls \<open>h\<close> made before: the file written, the
  transcription, and the error message when the transcription raised.
\<close>

definition attempt_trace :: "env \<Rightarrow> bytes \<Rightarrow> pystr \<Rightarrow> effect list \<Rightarrow> effect list" where
  "attempt_trace env audio p h =
     h @ [WriteTemp audio, Transcribe p] @
     (case whisper env (h @ [WriteTemp audio]) p of
        Inr text \<Rightarrow> []
      | Inl e \<Rightarrow> [StError (lit ''Transcription failed: '' @ message e)])"

text \<open>Whisper fails; Whisper hears nothing; the file cannot be removed.\<close>

definition deaf_env :: env where
  "deaf_env = demo_env\<lparr>whisper := (\<lambda>h p. Inl boom)\<rparr>"

definition silent_env :: env where
  "silent_env = demo_env\<lparr>whisper := (\<lambda>h p. Inr [])\<rparr>"

definition stuck_env :: env where
  "stuck_env = demo_env\<lparr>os_remove := (\<lambda>h p. Some boom)\<rparr>"

text \<open>The summarizer fails; the tokenizer fails.\<close>

definition no_summary_env :: env where
  "no_summary_env = demo_env\<lparr>summarizer := (\<lambda>h t. Inl boom)\<rparr>"

definition no_tokens_env :: env where
  "no_tokens_env = demo_env\<lparr>sent_tokenize := (\<lambda>h t. Inl boom)\<rparr>"

definition tmp :: pystr where
  "tmp = lit ''/tmp/tmpa.webm''"

definition heard :: pystr where
  "heard = lit ''s1 a b c d e f g h i j. short one.''"

text \<open>The acquired session after a transcription that removed its temporary file.\<close>

definition transcribed_world :: world where
  "transcribed_world =
     acquired_world\<lparr>trace := [WriteTemp [26, 69], Transcribe tmp, OsRemove tmp]\<rparr>"

definition one_card :: "flashcard list" where
  "one_card = [\<lparr>question = lit ''what?'', answer = lit ''s1 a b c d e f g h i j.''\<rparr>]"

text \<open>The report of the session with results, exported at the time of \<open>idle_ui\<close>.\<close>

definition demo_report :: pystr where
  "demo_report =
     lit ''LECTURE ANALYSIS REPORT'' @ nl @ lit ''File: a.webm'' @ nl @
     lit ''Generated: 2024-01-01 12:00:00'' @ nl @ nl @
     lit ''=== TRANSCRIPTION ==='' @ nl @ lit ''hello'' @ nl @ nl @
     lit ''=== SUMMARY ==='' @ nl @ lit ''No summary'' @ nl @ nl @
     lit ''=== FLASHCARDS ==='' @ nl @
     nl @ lit ''Card 1'' @ nl @ lit ''Q: q1'' @ nl @ lit ''A: a1'' @ nl @
     nl @ lit ''Card 2'' @ nl @ lit ''Q: q2'' @ nl @ lit ''A: a2'' @ nl"

section \<open>Splitting and trimming\<close>

lemma split_from_all_space:
  "\<forall>c\<in>set ws. isspace c \<Longrightarrow> split_from cur ws = (if cur = [] then [] else [cur])"
  by (induction ws arbitrary: cur) auto

lemma split_from_trailing:
  "\<forall>c\<in>set ws. isspace c \<Longrightarrow> split_from cur (s @ ws) = split_from cur s"
  by (induction s arbitrary: cur) (auto simp: split_from_all_space)

lemma split_from_leading: "split_from [] (dropWhile isspace s) = split_from [] s"
  by (induction s) auto

lemma rev_dropWhile_decomp: "rev (dropWhile P (rev s)) @ rev (takeWhile P (rev s)) = s"
proof -
  have "rev (takeWhile P (rev s) @ dropWhile P (rev s)) = s" by simp
  then show ?thesis by (simp only: rev_append)
qed

text \<open>Trimming a string does not change its words.\<close>

lemma split_strip: "split (strip s) = split s"
proof -
  let ?t = "dropWhile isspace s"
  let ?ws = "rev (takeWhile isspace (rev ?t))"
  have ws: "\<forall>c\<in>set ?ws. isspace c"
    by (auto dest: set_takeWhileD)
  have "split_from [] (strip s @ ?ws) = split_from [] (strip s)"
    using ws by (rule split_from_trailing)
  moreover have "strip s @ ?ws = ?t"
    unfolding strip_def by (rule rev_dropWhile_decomp)
  ultimately show ?thesis
    by (simp add: split_def split_from_leading)
qed

section \<open>The loop of the flashcard generator\<close>

lemma length_qg_outcomes [simp]: "length (qg_outcomes env h ss) = length ss"
  by (induction ss arbitrary: h) auto

lemma qg_outcomes_const:
  "(\<And>h s. qg_pipe env h s = r) \<Longrightarrow> qg_outcomes env h ss = map (\<lambda>s. r) ss"
  by (induction ss arbitrary: h) auto

text \<open>
  The loop asks every sentence it is given, in order, and appends the cards of those
  that were answered.
\<close>

lemma flashcard_loop_eq:
  "flashcard_loop env ss cards w =
     (cards @ List.map_filter card_for (zip ss (qg_outcomes env (trace w) ss)),
      w\<lparr>trace := trace w @ map AskQuestion ss\<rparr>)"
proof (induction ss arbitrary: cards w)
  case Nil
  then show ?case by simp
next
  case (Cons s ss)
  show ?case
  proof (cases "qg_pipe env (trace w) s")
    case None
    then show ?thesis
      by (simp add: Cons.IH emit_def card_for_def)
  next
    case (Some q)
    then show ?thesis
      by (simp add: Cons.IH emit_def card_for_def)
  qed
qed

lemma generate_flashcards_eq:
  assumes "load_models env (trace w) = None"
    and "sent_tokenize env (trace w @ [LoadModels]) text = Inr sentences"
  shows "generate_flashcards env text w =
     (Inr (List.map_filter card_for
            (zip (candidates sentences)
               (qg_outcomes env (trace w @ [LoadModels, SentTokenize text]) (candidates sentences)))),
      w\<lparr>trace := trace w @ [LoadModels, SentTokenize text] @ map AskQuestion (candidates sentences)\<rparr>)"
  using assms
  by (simp add: generate_flashcards_def emit_def flashcard_loop_eq candidates_def Let_def)

lemma generate_flashcards_Inr:
  assumes "generate_flashcards env text w = (Inr cards, w')"
  shows "load_models env (trace w) = None \<and>
         (\<exists>sentences. sent_tokenize env (trace w @ [LoadModels]) text = Inr sentences)"
  using assms
  by (auto simp: generate_flashcards_def emit_def Let_def split: option.splits sum.splits prod.splits)

lemma generate_flashcards_session:
  "session (snd (generate_flashcards env text w)) = session w"
  by (simp add: generate_flashcards_def emit_def Let_def flashcard_loop_eq
      split: option.splits sum.splits)

lemma length_candidates: "length (candidates sentences) \<le> 10"
  by (simp add: candidates_def)

lemma good_candidates: "s \<in> set (candidates sentences) \<Longrightarrow> good_sentence s"
  by (auto simp: candidates_def dest: in_set_takeD)

lemma length_map_filter_le: "length (List.map_filter f xs) \<le> length xs"
  by (simp add: List.map_filter_def)

lemma map_filter_answers:
  "map answer (List.map_filter card_for (zip ss rs)) =
     map strip (map fst (filter (\<lambda>p. snd p \<noteq> None) (zip ss rs)))"
  by (induction ss rs rule: list_induct2') (auto simp: card_for_def)

lemma subseq_answered:
  assumes "length rs = length ss"
  shows "subseq (map fst (filter P (zip ss rs))) ss"
proof -
  have "subseq (map fst (filter P (zip ss rs))) (map fst (zip ss rs))"
    by (intro subseq_map subseq_filter_left)
  then show ?thesis using assms by simp
qed

lemma all_answered:
  assumes "None \<notin> set rs"
  shows "filter (\<lambda>p. snd p \<noteq> None) (zip ss rs) = zip ss rs"
proof (rule filter_True, rule ballI)
  fix p assume "p \<in> set (zip ss rs)"
  then have "snd p \<in> set rs"
    by (metis prod.collapse set_zip_rightD)
  with assms show "snd p \<noteq> None" by metis
qed

section \<open>The concrete inputs, evaluated\<close>

lemma demo_env_simps [simp]:
  "write_temp demo_env h b = Inr (lit ''/tmp/tmpa.webm'')"
  "whisper demo_env h p = Inr (lit ''s1 a b c d e f g h i j. short one.'')"
  "os_remove demo_env h p = None"
  "load_models demo_env h = None"
  "summarizer demo_env h t = Inr (lit ''gist'')"
  "sent_tokenize demo_env h t = Inr (dot_sentences [] t)"
  "qg_pipe demo_env h s = Some (lit '' what? '')"
  by (simp_all add: demo_env_def)

lemma tokens_five:
  "dot_sentences [] five_sentences =
     map lit [''s1 a b c d e f g h i j.'', '' s2 a b c d e f g h i j.'', '' s3 a b c d e f g h i j.'',
              '' s4 a b c d e f g h i j.'', '' s5 a b c d e f g h i j.'']"
  by (simp add: five_sentences_def lit_def)

lemma tokens_eleven:
  "dot_sentences [] eleven_sentences =
     map lit [''s1 a b c d e f g h i j.'', '' s2 a b c d e f g h i j.'', '' s3 a b c d e f g h i j.'',
              '' s4 a b c d e f g h i j.'', '' s5 a b c d e f g h i j.'', '' s6 a b c d e f g h i j.'',
              '' s7 a b c d e f g h i j.'', '' s8 a b c d e f g h i j.'', '' s9 a b c d e f g h i j.'',
              '' sA a b c d e f g h i j.'', '' sB a b c d e f g h i j.'']"
  by (simp add: eleven_sentences_def five_sentences_def lit_def)

lemma candidates_five: "candidates (dot_sentences [] five_sentences) = dot_sentences [] five_sentences"
  by (simp add: tokens_five candidates_def good_sentence_def split_def lit_def isspace_def)

lemma candidates_eleven:
  "candidates (dot_sentences [] eleven_sentences) = take 10 (dot_sentences [] eleven_sentences)"
  by (simp add: tokens_eleven candidates_def good_sentence_def split_def lit_def isspace_def)

lemma demo_eleven:
  "generate_flashcards demo_env eleven_sentences new_world = (Inr ten_cards, asked_world)"
proof -
  have outs: "qg_outcomes demo_env h ss = map (\<lambda>s. Some (lit '' what? '')) ss" for h ss
    by (rule qg_outcomes_const) simp
  have "List.map_filter card_for
          (zip (take 10 (dot_sentences [] eleven_sentences))
             (map (\<lambda>s. Some (lit '' what? '')) (take 10 (dot_sentences [] eleven_sentences)))) =
        ten_cards"
    by (simp add: tokens_eleven ten_cards_def card_for_def strip_def lit_def isspace_def)
  then show ?thesis
    using generate_flashcards_eq [of demo_env new_world eleven_sentences "dot_sentences [] eleven_sentences"]
    by (simp add: outs candidates_eleven asked_world_def new_world_def)
qed

lemma demo_short:
  "sent_tokenize demo_env h short_test = Inr [short_test]"
  by (simp add: short_test_def lit_def)

section \<open>Transcription and the pipeline\<close>

lemma transcribe_with_whisper_eq:
  assumes "write_temp env (trace w) audio = Inr p"
  shows "transcribe_with_whisper env audio w =
     (Inr (case whisper env (trace w @ [WriteTemp audio]) p of Inr text \<Rightarrow> Some text | Inl e \<Rightarrow> None),
      w\<lparr>files := (if os_remove env (attempt_trace env audio p (trace w)) p = None
                   then insert p (files w) - {p} else insert p (files w)),
         trace := attempt_trace env audio p (trace w) @ [OsRemove p]\<rparr>)"
  using assms
  by (simp add: transcribe_with_whisper_def attempt_trace_def emit_def Let_def
      split: sum.splits option.splits)

lemma transcribe_with_whisper_session:
  "session (snd (transcribe_with_whisper env audio w)) = session w"
  by (simp add: transcribe_with_whisper_def emit_def Let_def split: sum.splits option.splits)

lemma generate_summary_eq:
  assumes "load_models env (trace w) = None"
  shows "generate_summary env text w =
     (Inr (case summarizer env (trace w @ [LoadModels]) text of Inr s \<Rightarrow> Some s | Inl e \<Rightarrow> None),
      w\<lparr>trace := trace w @ [LoadModels, Summarize text] @
           (case summarizer env (trace w @ [LoadModels]) text of
              Inr s \<Rightarrow> []
            | Inl e \<Rightarrow> [StError (lit ''Summary failed: '' @ message e)])\<rparr>)"
  using assms
  by (simp add: generate_summary_def emit_def Let_def split: sum.splits)

lemma generate_flashcards_trace:
  "\<exists>rest. trace (snd (generate_flashcards env text w)) = trace w @ LoadModels # rest"
  by (simp add: generate_flashcards_def emit_def Let_def flashcard_loop_eq
      split: option.splits sum.splits)

lemma init_state_eq:
  "init_state st =
     \<lparr>audio_data = (case audio_data st of Absent \<Rightarrow> Holds None | Holds v \<Rightarrow> Holds v),
      file_name = (case file_name st of Absent \<Rightarrow> Holds None | Holds v \<Rightarrow> Holds v),
      transcription = (case transcription st of Absent \<Rightarrow> Holds None | Holds v \<Rightarrow> Holds v),
      summary = (case summary st of Absent \<Rightarrow> Holds None | Holds v \<Rightarrow> Holds v),
      flashcards = (case flashcards st of Absent \<Rightarrow> Holds None | Holds v \<Rightarrow> Holds v)\<rparr>"
  by (cases st) (simp add: init_state_def split: slot.splits)

lemma init_state_id:
  assumes "audio_data st \<noteq> Absent" "file_name st \<noteq> Absent" "transcription st \<noteq> Absent"
    "summary st \<noteq> Absent" "flashcards st \<noteq> Absent"
  shows "init_state st = st"
  using assms by (cases st) (simp add: init_state_eq split: slot.splits)

lemma reset_app_eq: "reset_app st = new_session"
  by (cases st) (simp add: reset_app_def new_session_def)

lemma script_pipeline:
  assumes "audio_data (session w) = Holds (Some audio)" and "file_name (session w) \<noteq> Absent"
    and "transcription (session w) = Holds None"
    and "summary (session w) \<noteq> Absent" and "flashcards (session w) \<noteq> Absent"
  shows "script env ui w = pipeline_block env audio w"
proof -
  have "init_state (session w) = session w"
    using assms by (intro init_state_id) simp_all
  then show ?thesis
    using assms by (simp add: script_def split: slot.splits)
qed

lemma script_results:
  assumes "audio_data (session w) = Holds (Some audio)" and "file_name (session w) = Holds name"
    and "transcription (session w) = Holds (Some text)"
    and "summary (session w) \<noteq> Absent" and "flashcards (session w) \<noteq> Absent"
  shows "script env ui w = results_block ui name text w"
proof -
  have "init_state (session w) = session w"
    using assms by (intro init_state_id) simp_all
  then show ?thesis
    using assms by (simp add: script_def)
qed

lemma pipeline_block_falsy:
  assumes "transcribe_with_whisper env audio w = (Inr t, w1)" and "t = None \<or> t = Some []"
  shows "pipeline_block env audio w =
           (w1\<lparr>session := (session w1)\<lparr>transcription := Holds t\<rparr>\<rparr>, Finished None)"
  using assms by (auto simp: pipeline_block_def)

lemma pipeline_block_truthy:
  assumes "transcribe_with_whisper env audio w = (Inr (Some text), w1)" and "text \<noteq> []"
    and "load_models env (trace w1) = None"
  shows "pipeline_block env audio w =
     (case generate_flashcards env text
             (w1\<lparr>trace := trace w1 @ [LoadModels, Summarize text] @
                    (case summarizer env (trace w1 @ [LoadModels]) text of
                       Inr s \<Rightarrow> []
                     | Inl e \<Rightarrow> [StError (lit ''Summary failed: '' @ message e)]),
                  session := (session w1)
                    \<lparr>transcription := Holds (Some text),
                     summary := Holds (case summarizer env (trace w1 @ [LoadModels]) text of
                                         Inr s \<Rightarrow> Some s | Inl e \<Rightarrow> None)\<rparr>\<rparr>) of
        (Inl e, w5) \<Rightarrow> (w5, Raised e)
      | (Inr cards, w5) \<Rightarrow>
          (w5\<lparr>session := (session w5)\<lparr>flashcards := Holds (Some cards)\<rparr>\<rparr>, Rerun))"
proof -
  let ?w2 = "w1\<lparr>session := (session w1)\<lparr>transcription := Holds (Some text)\<rparr>\<rparr>"
  have lm: "load_models env (trace ?w2) = None"
    using assms(3) by simp
  show ?thesis
    using assms(1,2) by (simp add: pipeline_block_def generate_summary_eq [OF lm] Let_def)
qed

lemma demo_transcribed:
  "transcribe_with_whisper demo_env [26, 69] acquired_world = (Inr (Some heard), transcribed_world)"
  using transcribe_with_whisper_eq [of demo_env acquired_world "[26, 69]" tmp]
  by (simp add: tmp_def heard_def attempt_trace_def acquired_world_def transcribed_world_def)

lemma tokens_heard:
  "dot_sentences [] heard = [lit ''s1 a b c d e f g h i j.'', lit '' short one.'']"
  by (simp add: heard_def lit_def)

lemma candidates_heard: "candidates (dot_sentences [] heard) = [lit ''s1 a b c d e f g h i j.'']"
  by (simp add: tokens_heard candidates_def good_sentence_def split_def lit_def isspace_def)

lemma cards_heard:
  "List.map_filter card_for (zip [lit ''s1 a b c d e f g h i j.''] [Some (lit '' what? '')]) = one_card"
  by (simp add: card_for_def one_card_def strip_def lit_def isspace_def)

lemma results_block_world: "fst (results_block ui name text w) = w"
  by (simp add: results_block_def split: slot.splits)

section \<open>The session across runs, and the report\<close>

lemma script_keeps_transcript:
  assumes "transcription (session w) = Holds (Some t)"
  shows "transcription (session (fst (script env ui w))) = Holds (Some t) \<and>
         trace (fst (script env ui w)) = trace w \<and> files (fst (script env ui w)) = files w"
proof -
  let ?w = "w\<lparr>session := init_state (session w)\<rparr>"
  have t: "transcription (session ?w) = Holds (Some t)"
    using assms by (simp add: init_state_eq)
  have i: "transcription (session (fst (input_block ui ?w))) = Holds (Some t) \<and>
      trace (fst (input_block ui ?w)) = trace w \<and> files (fst (input_block ui ?w)) = files w"
    using t by (simp add: input_block_def split: option.splits prod.splits)
  have r: "fst (results_block ui name tx ?w) = ?w" for name tx
    by (rule results_block_world)
  show ?thesis
  proof (cases "audio_data (session ?w)")
    case Absent
    then show ?thesis using t by (simp add: script_def Let_def)
  next
    case (Holds a)
    show ?thesis
    proof (cases a)
      case None
      then show ?thesis using Holds i by (simp add: script_def Let_def)
    next
      case (Some audio)
      show ?thesis
      proof (cases "file_name (session ?w)")
        case Absent
        then show ?thesis using Holds Some t by (simp add: script_def Let_def)
      next
        case name: (Holds name)
        have "script env ui w = results_block ui name t ?w"
          using Holds Some name t by (simp add: script_def Let_def)
        then show ?thesis using r [of name t] t by simp
      qed
    qed
  qed
qed

lemma decimal_snoc: "decimal (ds @ [d]) = 10 * decimal ds + (d - 48)"
  by (simp add: decimal_def)

lemma str_nat_digit: "n < 10 \<Longrightarrow> str_nat n = [48 + n]"
  by (simp add: str_nat.simps)

text \<open>\<open>str_nat\<close> writes the number it is given.\<close>

lemma decimal_str_nat: "decimal (str_nat n) = n"
proof (induction n rule: str_nat.induct)
  case (1 n)
  show ?case
  proof (cases "n < 10")
    case True
    then show ?thesis by (simp add: str_nat_digit decimal_def)
  next
    case False
    then have "str_nat n = str_nat (n div 10) @ [48 + n mod 10]"
      by (subst str_nat.simps) simp
    then show ?thesis using "1.IH" False by (simp add: decimal_snoc)
  qed
qed

text \<open>The loop of the report appends the blocks of the cards, numbered on from \<open>i + 1\<close>.\<close>

lemma report_cards_eq:
  "report_cards i cs acc = acc @ concat (map card_block (zip [i..<i + length cs] cs))"
proof (induction cs arbitrary: i acc)
  case Nil
  then show ?case by simp
next
  case (Cons c cs)
  have "[i..<i + length (c # cs)] = i # [Suc i..<Suc i + length cs]"
    using upt_conv_Cons [of i "i + Suc (length cs)"] by simp
  then show ?case
    by (simp add: Cons.IH card_block_def)
qed

section \<open>Claims about the flashcard generator\<close>

text \<open>
  C1. When \<open>generate_flashcards\<close> returns, it returns at most 10 flashcards. The
  sentences it used, that is those it handed to the question generator, are the first
  ten at most of the qualifying sentences, in the order in which the tokenizer gave
  them; the answers of the cards are these sentences, trimmed, without those whose call
  failed, and all of them when no call failed.
\<close>

theorem generate_flashcards_cap:
  assumes "generate_flashcards env text w = (Inr cards, w')"
  shows "length cards \<le> 10 \<and>
    (\<exists>sentences. sent_tokenize env (trace w @ [LoadModels]) text = Inr sentences \<and>
       trace w' = trace w @ [LoadModels, SentTokenize text] @
                    map AskQuestion (take 10 (filter good_sentence sentences)) \<and>
       subseq (map answer cards) (map strip (take 10 (filter good_sentence sentences))) \<and>
       (None \<notin> set (qg_outcomes env (trace w @ [LoadModels, SentTokenize text])
                      (take 10 (filter good_sentence sentences))) \<longrightarrow>
          map answer cards = map strip (take 10 (filter good_sentence sentences))))"
proof -
  from assms obtain sentences where
    lm: "load_models env (trace w) = None" and
    tok: "sent_tokenize env (trace w @ [LoadModels]) text = Inr sentences"
    using generate_flashcards_Inr by blast
  let ?cands = "candidates sentences"
  let ?outs = "qg_outcomes env (trace w @ [LoadModels, SentTokenize text]) ?cands"
  have res: "cards = List.map_filter card_for (zip ?cands ?outs)"
    and tr: "w' = w\<lparr>trace := trace w @ [LoadModels, SentTokenize text] @ map AskQuestion ?cands\<rparr>"
    using generate_flashcards_eq [OF lm tok] assms by simp_all
  have "length cards \<le> length (zip ?cands ?outs)"
    unfolding res by (rule length_map_filter_le)
  then have len: "length cards \<le> 10"
    using length_candidates [of sentences] by simp
  have ans: "map answer cards = map strip (map fst (filter (\<lambda>p. snd p \<noteq> None) (zip ?cands ?outs)))"
    unfolding res by (rule map_filter_answers)
  have sub: "subseq (map answer cards) (map strip ?cands)"
    unfolding ans by (intro subseq_map subseq_answered) simp
  have full: "map answer cards = map strip ?cands" if "None \<notin> set ?outs"
    unfolding ans using all_answered [OF that, of ?cands] by simp
  show ?thesis
    using len tok tr sub full unfolding candidates_def by auto
qed

theorem generate_flashcards_cap_witness:
  "generate_flashcards demo_env eleven_sentences new_world = (Inr ten_cards, asked_world) \<and>
   length ten_cards \<le> 10 \<and>
   map answer ten_cards =
     map strip (take 10 (filter good_sentence (dot_sentences [] eleven_sentences)))"
proof -
  have h: "generate_flashcards demo_env eleven_sentences new_world = (Inr ten_cards, asked_world)"
    by (rule demo_eleven)
  have outs: "qg_outcomes demo_env h ss = map (\<lambda>s. Some (lit '' what? '')) ss" for h ss
    by (rule qg_outcomes_const) simp
  show ?thesis
    using h generate_flashcards_cap [OF h] by (auto simp: outs)
qed

text \<open>
  C2. The answer of every flashcard that \<open>generate_flashcards\<close> returns has more
  than 10 and fewer than 50 words, counted as the filter counts them, with \<open>split\<close>.
  For the transcript \<open>This is a short test.\<close>, which the tokenizer gives back as its
  one sentence, the list returned is empty.
\<close>

theorem flashcard_answer_word_count:
  "(generate_flashcards env text w = (Inr cards, w') \<longrightarrow>
      (\<forall>c \<in> set cards. 10 < length (split (answer c)) \<and> length (split (answer c)) < 50)) \<and>
   (load_models env (trace w) = None \<and>
    sent_tokenize env (trace w @ [LoadModels]) short_test = Inr [short_test] \<longrightarrow>
      fst (generate_flashcards env short_test w) = Inr [])"
proof (rule conjI; rule impI)
  assume ret: "generate_flashcards env text w = (Inr cards, w')"
  from ret obtain sentences where
    lm: "load_models env (trace w) = None" and
    tok: "sent_tokenize env (trace w @ [LoadModels]) text = Inr sentences"
    using generate_flashcards_Inr by blast
  let ?cands = "candidates sentences"
  let ?outs = "qg_outcomes env (trace w @ [LoadModels, SentTokenize text]) ?cands"
  have "cards = List.map_filter card_for (zip ?cands ?outs)"
    using generate_flashcards_eq [OF lm tok] ret by simp
  then have ans: "map answer cards =
      map strip (map fst (filter (\<lambda>p. snd p \<noteq> None) (zip ?cands ?outs)))"
    by (simp only: map_filter_answers)
  show "\<forall>c \<in> set cards. 10 < length (split (answer c)) \<and> length (split (answer c)) < 50"
  proof
    fix c
    assume "c \<in> set cards"
    then have "answer c \<in> set (map answer cards)"
      by simp
    with ans obtain p where p: "p \<in> set (zip ?cands ?outs)" and a: "answer c = strip (fst p)"
      by auto
    from p have "fst p \<in> set ?cands"
      by (metis prod.collapse set_zip_leftD)
    then have "good_sentence (fst p)"
      by (rule good_candidates)
    then show "10 < length (split (answer c)) \<and> length (split (answer c)) < 50"
      by (simp add: a split_strip good_sentence_def)
  qed
next
  assume "load_models env (trace w) = None \<and>
    sent_tokenize env (trace w @ [LoadModels]) short_test = Inr [short_test]"
  then have lm: "load_models env (trace w) = None"
    and tok: "sent_tokenize env (trace w @ [LoadModels]) short_test = Inr [short_test]"
    by simp_all
  have "length (split short_test) = 5"
    by (simp add: short_test_def split_def lit_def isspace_def)
  then have "candidates [short_test] = []"
    by (simp add: candidates_def good_sentence_def)
  then show "fst (generate_flashcards env short_test w) = Inr []"
    using generate_flashcards_eq [OF lm tok] by simp
qed

theorem flashcard_answer_word_count_witness:
  "generate_flashcards demo_env eleven_sentences new_world = (Inr ten_cards, asked_world) \<and>
   list_all (\<lambda>c. 10 < length (split (answer c)) \<and> length (split (answer c)) < 50) ten_cards \<and>
   load_models demo_env (trace new_world) = None \<and>
   sent_tokenize demo_env (trace new_world @ [LoadModels]) short_test = Inr [short_test] \<and>
   fst (generate_flashcards demo_env short_test new_world) = Inr []"
proof -
  have h: "generate_flashcards demo_env eleven_sentences new_world = (Inr ten_cards, asked_world)"
    by (rule demo_eleven)
  have t: "sent_tokenize demo_env (trace new_world @ [LoadModels]) short_test = Inr [short_test]"
    by (rule demo_short)
  show ?thesis
    using h t flashcard_answer_word_count [of demo_env eleven_sentences new_world ten_cards asked_world]
    by (simp add: list_all_iff)
qed

text \<open>
  C3. Whatever the question generator does, once the models are loaded and the
  transcript is tokenized \<open>generate_flashcards\<close> returns, and returns the cards of the
  candidates whose call succeeded, in the order of the candidates: a call that fails
  costs that candidate's card and no other. With five candidates and a failure on the
  third, the result is the four cards of the first, second, fourth and fifth, in this
  order.
\<close>

theorem flashcards_follow_sentence_order:
  assumes "load_models env (trace w) = None"
    and "sent_tokenize env (trace w @ [LoadModels]) text = Inr sentences"
    and "cands = candidates sentences"
    and "outs = qg_outcomes env (trace w @ [LoadModels, SentTokenize text]) cands"
  shows "\<exists>cards w'. generate_flashcards env text w = (Inr cards, w') \<and>
      cards = List.map_filter card_for (zip cands outs) \<and>
      map answer cards = map strip (map fst (filter (\<lambda>p. snd p \<noteq> None) (zip cands outs))) \<and>
      (\<forall>s1 s2 s3 s4 s5 q1 q2 q4 q5.
          cands = [s1, s2, s3, s4, s5] \<and> outs = [Some q1, Some q2, None, Some q4, Some q5] \<longrightarrow>
          length cards = 4 \<and>
          cards = [\<lparr>question = strip q1, answer = strip s1\<rparr>,
                   \<lparr>question = strip q2, answer = strip s2\<rparr>,
                   \<lparr>question = strip q4, answer = strip s4\<rparr>,
                   \<lparr>question = strip q5, answer = strip s5\<rparr>])"
proof -
  let ?cards = "List.map_filter card_for (zip cands outs)"
  have ret: "generate_flashcards env text w =
      (Inr ?cards,
       w\<lparr>trace := trace w @ [LoadModels, SentTokenize text] @ map AskQuestion cands\<rparr>)"
    using generate_flashcards_eq [OF assms(1,2)] assms(3,4) by simp
  have ans: "map answer ?cards = map strip (map fst (filter (\<lambda>p. snd p \<noteq> None) (zip cands outs)))"
    by (rule map_filter_answers)
  have five: "length ?cards = 4 \<and>
      ?cards = [\<lparr>question = strip q1, answer = strip s1\<rparr>,
                \<lparr>question = strip q2, answer = strip s2\<rparr>,
                \<lparr>question = strip q4, answer = strip s4\<rparr>,
                \<lparr>question = strip q5, answer = strip s5\<rparr>]"
    if "cands = [s1, s2, s3, s4, s5] \<and> outs = [Some q1, Some q2, None, Some q4, Some q5]"
    for s1 s2 s3 s4 s5 q1 q2 q4 q5
    using that by (simp add: card_for_def)
  show ?thesis
    using ret ans five by blast
qed

theorem flashcards_follow_sentence_order_witness:
  "load_models flaky_env (trace new_world) = None \<and>
   sent_tokenize flaky_env (trace new_world @ [LoadModels]) five_sentences =
     Inr (dot_sentences [] five_sentences) \<and>
   candidates (dot_sentences [] five_sentences) =
     map lit [''s1 a b c d e f g h i j.'', '' s2 a b c d e f g h i j.'', '' s3 a b c d e f g h i j.'',
              '' s4 a b c d e f g h i j.'', '' s5 a b c d e f g h i j.''] \<and>
   qg_outcomes flaky_env (trace new_world @ [LoadModels, SentTokenize five_sentences])
       (candidates (dot_sentences [] five_sentences)) =
     [Some (lit '' what? ''), Some (lit '' what? ''), None, Some (lit '' what? ''),
      Some (lit '' what? '')] \<and>
   fst (generate_flashcards flaky_env five_sentences new_world) = Inr four_cards \<and>
   length four_cards = 4"
proof -
  have lm: "load_models flaky_env (trace new_world) = None"
    by (simp add: flaky_env_def)
  have tok: "sent_tokenize flaky_env (trace new_world @ [LoadModels]) five_sentences =
      Inr (dot_sentences [] five_sentences)"
    by (simp add: flaky_env_def)
  have cands: "candidates (dot_sentences [] five_sentences) =
     map lit [''s1 a b c d e f g h i j.'', '' s2 a b c d e f g h i j.'', '' s3 a b c d e f g h i j.'',
              '' s4 a b c d e f g h i j.'', '' s5 a b c d e f g h i j.'']"
    using candidates_five unfolding tokens_five .
  have outs: "qg_outcomes flaky_env (trace new_world @ [LoadModels, SentTokenize five_sentences])
       (candidates (dot_sentences [] five_sentences)) =
     [Some (lit '' what? ''), Some (lit '' what? ''), None, Some (lit '' what? ''),
      Some (lit '' what? '')]"
    unfolding cands by (simp add: flaky_env_def demo_env_def lit_def)
  have strips: "strip (lit '' what? '') = lit ''what?''"
    "strip (lit ''s1 a b c d e f g h i j.'') = lit ''s1 a b c d e f g h i j.''"
    "strip (lit '' s2 a b c d e f g h i j.'') = lit ''s2 a b c d e f g h i j.''"
    "strip (lit '' s4 a b c d e f g h i j.'') = lit ''s4 a b c d e f g h i j.''"
    "strip (lit '' s5 a b c d e f g h i j.'') = lit ''s5 a b c d e f g h i j.''"
    by (simp_all add: strip_def lit_def isspace_def)
  from flashcards_follow_sentence_order [OF lm tok refl refl]
  have "fst (generate_flashcards flaky_env five_sentences new_world) = Inr four_cards"
    unfolding outs unfolding cands
    by (auto simp: four_cards_def strips)
  then show ?thesis
    using lm tok cands outs by (simp add: four_cards_def)
qed

section \<open>Claims about transcription and the pipeline\<close>

text \<open>
  C9. Once the temporary file \<open>p\<close> is written, \<open>transcribe_with_whisper\<close> returns
  a value (the text when Whisper answered, \<open>None\<close> when it raised) and its last call is
  \<open>os.remove(p)\<close>, on both paths. When that call succeeds the file is gone; when it
  raises, the function returns all the same and the file stays.
\<close>

theorem temp_file_removed_on_both_paths:
  assumes "write_temp env (trace w) audio = Inr p"
    and "r = transcribe_with_whisper env audio w"
  shows "fst r = Inr (case whisper env (trace w @ [WriteTemp audio]) p of
                       Inr text \<Rightarrow> Some text | Inl e \<Rightarrow> None) \<and>
     session (snd r) = session w \<and>
     trace (snd r) = attempt_trace env audio p (trace w) @ [OsRemove p] \<and>
     (os_remove env (attempt_trace env audio p (trace w)) p = None \<longrightarrow>
        p \<notin> files (snd r) \<and> files (snd r) = files w - {p}) \<and>
     (os_remove env (attempt_trace env audio p (trace w)) p \<noteq> None \<longrightarrow>
        files (snd r) = insert p (files w))"
  unfolding assms(2) transcribe_with_whisper_eq [OF assms(1)] by simp

theorem temp_file_removed_on_both_paths_witness:
  "write_temp demo_env (trace new_world) [26, 69] = Inr tmp \<and>
   fst (transcribe_with_whisper demo_env [26, 69] new_world) = Inr (Some heard) \<and>
   trace (snd (transcribe_with_whisper demo_env [26, 69] new_world)) =
     [WriteTemp [26, 69], Transcribe tmp, OsRemove tmp] \<and>
   files (snd (transcribe_with_whisper demo_env [26, 69] new_world)) = {} \<and>
   write_temp deaf_env (trace new_world) [26, 69] = Inr tmp \<and>
   fst (transcribe_with_whisper deaf_env [26, 69] new_world) = Inr None \<and>
   trace (snd (transcribe_with_whisper deaf_env [26, 69] new_world)) =
     [WriteTemp [26, 69], Transcribe tmp, StError (lit ''Transcription failed: boom''),
      OsRemove tmp] \<and>
   files (snd (transcribe_with_whisper deaf_env [26, 69] new_world)) = {} \<and>
   write_temp stuck_env (trace new_world) [26, 69] = Inr tmp \<and>
   fst (transcribe_with_whisper stuck_env [26, 69] new_world) = Inr (Some heard) \<and>
   trace (snd (transcribe_with_whisper stuck_env [26, 69] new_world)) =
     [WriteTemp [26, 69], Transcribe tmp, OsRemove tmp] \<and>
   files (snd (transcribe_with_whisper stuck_env [26, 69] new_world)) = {tmp}"
proof -
  have a: "write_temp demo_env (trace new_world) [26, 69] = Inr tmp"
    by (simp add: tmp_def)
  have b: "write_temp deaf_env (trace new_world) [26, 69] = Inr tmp"
    by (simp add: tmp_def deaf_env_def)
  have c: "write_temp stuck_env (trace new_world) [26, 69] = Inr tmp"
    by (simp add: tmp_def stuck_env_def)
  have m: "lit ''Transcription failed: '' @ message boom = lit ''Transcription failed: boom''"
    by (simp add: boom_def lit_def)
  have "fst (transcribe_with_whisper demo_env [26, 69] new_world) = Inr (Some heard) \<and>
     trace (snd (transcribe_with_whisper demo_env [26, 69] new_world)) =
       [WriteTemp [26, 69], Transcribe tmp, OsRemove tmp] \<and>
     files (snd (transcribe_with_whisper demo_env [26, 69] new_world)) = {}"
    using temp_file_removed_on_both_paths [OF a refl]
    by (simp add: attempt_trace_def new_world_def heard_def)
  moreover have "fst (transcribe_with_whisper deaf_env [26, 69] new_world) = Inr None \<and>
     trace (snd (transcribe_with_whisper deaf_env [26, 69] new_world)) =
       [WriteTemp [26, 69], Transcribe tmp, StError (lit ''Transcription failed: boom''),
        OsRemove tmp] \<and>
     files (snd (transcribe_with_whisper deaf_env [26, 69] new_world)) = {}"
    using temp_file_removed_on_both_paths [OF b refl]
    by (simp add: attempt_trace_def new_world_def deaf_env_def m)
  moreover have "fst (transcribe_with_whisper stuck_env [26, 69] new_world) = Inr (Some heard) \<and>
     trace (snd (transcribe_with_whisper stuck_env [26, 69] new_world)) =
       [WriteTemp [26, 69], Transcribe tmp, OsRemove tmp] \<and>
     files (snd (transcribe_with_whisper stuck_env [26, 69] new_world)) = {tmp}"
    using temp_file_removed_on_both_paths [OF c refl]
    by (simp add: attempt_trace_def new_world_def stuck_env_def heard_def)
  ultimately show ?thesis
    using a b c by simp
qed

text \<open>
  C5. When the transcription raises, the pipeline stores \<open>None\<close> as the transcript and
  ends the run there: the summary and the flashcards of the session are what they were,
  and the only calls made are those of \<open>transcribe_with_whisper\<close>, with no call to
  \<open>load_models\<close>, the summarizer, the tokenizer or the question generator. In a run of
  the script on a session that holds audio and nothing derived from it, the summary and
  the flashcards are therefore still \<open>None\<close> afterwards.
\<close>

theorem failed_transcription_leaves_summary_and_flashcards_unset:
  assumes "write_temp env (trace w) audio = Inr p"
    and "whisper env (trace w @ [WriteTemp audio]) p = Inl e"
    and "r = pipeline_block env audio w"
  shows "snd r = Finished None \<and>
     transcription (session (fst r)) = Holds None \<and>
     summary (session (fst r)) = summary (session w) \<and>
     flashcards (session (fst r)) = flashcards (session w) \<and>
     trace (fst r) =
       trace w @ [WriteTemp audio, Transcribe p,
                  StError (lit ''Transcription failed: '' @ message e), OsRemove p] \<and>
     (audio_data (session w) = Holds (Some audio) \<and> file_name (session w) \<noteq> Absent \<and>
      transcription (session w) = Holds None \<and> summary (session w) = Holds None \<and>
      flashcards (session w) = Holds None \<longrightarrow>
        script env ui w = r \<and> summary (session (fst r)) = Holds None \<and>
        flashcards (session (fst r)) = Holds None)"
proof -
  note t = transcribe_with_whisper_eq [OF assms(1)]
  have r: "r = (snd (transcribe_with_whisper env audio w)
                  \<lparr>session := (session (snd (transcribe_with_whisper env audio w)))
                      \<lparr>transcription := Holds None\<rparr>\<rparr>, Finished None)"
    unfolding assms(3)
    by (rule pipeline_block_falsy [where t = None]) (simp_all add: t assms(2))
  have "script env ui w = r"
    if "audio_data (session w) = Holds (Some audio) \<and> file_name (session w) \<noteq> Absent \<and>
      transcription (session w) = Holds None \<and> summary (session w) = Holds None \<and>
      flashcards (session w) = Holds None"
    unfolding assms(3) using that by (intro script_pipeline) simp_all
  then show ?thesis
    unfolding r by (simp add: t assms(2) attempt_trace_def)
qed

theorem failed_transcription_leaves_summary_and_flashcards_unset_witness:
  "write_temp deaf_env (trace acquired_world) [26, 69] = Inr tmp \<and>
   whisper deaf_env (trace acquired_world @ [WriteTemp [26, 69]]) tmp = Inl boom \<and>
   script deaf_env idle_ui acquired_world = pipeline_block deaf_env [26, 69] acquired_world \<and>
   snd (script deaf_env idle_ui acquired_world) = Finished None \<and>
   transcription (session (fst (script deaf_env idle_ui acquired_world))) = Holds None \<and>
   summary (session (fst (script deaf_env idle_ui acquired_world))) = Holds None \<and>
   flashcards (session (fst (script deaf_env idle_ui acquired_world))) = Holds None \<and>
   trace (fst (script deaf_env idle_ui acquired_world)) =
     [WriteTemp [26, 69], Transcribe tmp, StError (lit ''Transcription failed: boom''),
      OsRemove tmp]"
proof -
  have a: "write_temp deaf_env (trace acquired_world) [26, 69] = Inr tmp"
    by (simp add: tmp_def deaf_env_def)
  have b: "whisper deaf_env (trace acquired_world @ [WriteTemp [26, 69]]) tmp = Inl boom"
    by (simp add: deaf_env_def)
  have m: "lit ''Transcription failed: '' @ message boom = lit ''Transcription failed: boom''"
    by (simp add: boom_def lit_def)
  have s: "audio_data (session acquired_world) = Holds (Some [26, 69]) \<and>
      file_name (session acquired_world) \<noteq> Absent \<and>
      transcription (session acquired_world) = Holds None \<and>
      summary (session acquired_world) = Holds None \<and>
      flashcards (session acquired_world) = Holds None"
    by (simp add: acquired_world_def)
  have t: "trace acquired_world = []"
    by (simp add: acquired_world_def)
  show ?thesis
    using a b s
      failed_transcription_leaves_summary_and_flashcards_unset [OF a b refl, of idle_ui]
    by (simp add: m t)
qed

text \<open>
  C10. When the transcription returns the empty string, the pipeline stores it as the
  transcript and ends the run there, because \<open>if transcription:\<close> is false for it: the
  summary and the flashcards are what they were, and no call is made to \<open>load_models\<close>,
  the summarizer, the tokenizer or the question generator. The transcript is no longer
  \<open>None\<close>, so the next run of the script shows the results and transcribes nothing.
\<close>

theorem empty_transcript_skips_summary_and_flashcards:
  assumes "write_temp env (trace w) audio = Inr p"
    and "whisper env (trace w @ [WriteTemp audio]) p = Inr []"
    and "r = pipeline_block env audio w"
  shows "snd r = Finished None \<and>
     transcription (session (fst r)) = Holds (Some []) \<and>
     summary (session (fst r)) = summary (session w) \<and>
     flashcards (session (fst r)) = flashcards (session w) \<and>
     trace (fst r) = trace w @ [WriteTemp audio, Transcribe p, OsRemove p] \<and>
     (audio_data (session w) = Holds (Some audio) \<and> file_name (session w) = Holds name \<and>
      transcription (session w) = Holds None \<and> summary (session w) = Holds None \<and>
      flashcards (session w) = Holds None \<longrightarrow>
        script env ui w = r \<and> summary (session (fst r)) = Holds None \<and>
        flashcards (session (fst r)) = Holds None \<and>
        script env' ui' (fst r) = results_block ui' name [] (fst r) \<and>
        trace (fst (script env' ui' (fst r))) = trace (fst r))"
proof -
  note t = transcribe_with_whisper_eq [OF assms(1)]
  have r: "r = (snd (transcribe_with_whisper env audio w)
                  \<lparr>session := (session (snd (transcribe_with_whisper env audio w)))
                      \<lparr>transcription := Holds (Some [])\<rparr>\<rparr>, Finished None)"
    unfolding assms(3)
    by (rule pipeline_block_falsy [where t = "Some []"]) (simp_all add: t assms(2))
  have base: "snd r = Finished None \<and>
     transcription (session (fst r)) = Holds (Some []) \<and>
     summary (session (fst r)) = summary (session w) \<and>
     flashcards (session (fst r)) = flashcards (session w) \<and>
     trace (fst r) = trace w @ [WriteTemp audio, Transcribe p, OsRemove p]"
    unfolding r by (simp add: t assms(2) attempt_trace_def)
  have ext: "script env ui w = r \<and> summary (session (fst r)) = Holds None \<and>
      flashcards (session (fst r)) = Holds None \<and>
      script env' ui' (fst r) = results_block ui' name [] (fst r) \<and>
      trace (fst (script env' ui' (fst r))) = trace (fst r)"
    if s: "audio_data (session w) = Holds (Some audio) \<and> file_name (session w) = Holds name \<and>
      transcription (session w) = Holds None \<and> summary (session w) = Holds None \<and>
      flashcards (session w) = Holds None"
  proof -
    have 1: "script env ui w = r"
      unfolding assms(3) using s by (intro script_pipeline) simp_all
    have 2: "script env' ui' (fst r) = results_block ui' name [] (fst r)"
      using s by (intro script_results [where audio = audio]) (simp_all add: r t)
    have 3: "trace (fst (script env' ui' (fst r))) = trace (fst r)"
      unfolding 2 by (simp only: results_block_world)
    show ?thesis using 1 2 3 base s by simp
  qed
  show ?thesis
    using base ext by blast
qed

theorem empty_transcript_skips_summary_and_flashcards_witness:
  "write_temp silent_env (trace acquired_world) [26, 69] = Inr tmp \<and>
   whisper silent_env (trace acquired_world @ [WriteTemp [26, 69]]) tmp = Inr [] \<and>
   pipeline_block silent_env [26, 69] acquired_world = script silent_env idle_ui acquired_world \<and>
   snd (pipeline_block silent_env [26, 69] acquired_world) = Finished None \<and>
   transcription (session (fst (pipeline_block silent_env [26, 69] acquired_world))) =
     Holds (Some []) \<and>
   summary (session (fst (pipeline_block silent_env [26, 69] acquired_world))) = Holds None \<and>
   flashcards (session (fst (pipeline_block silent_env [26, 69] acquired_world))) = Holds None \<and>
   trace (fst (pipeline_block silent_env [26, 69] acquired_world)) =
     [WriteTemp [26, 69], Transcribe tmp, OsRemove tmp] \<and>
   script demo_env export_ui (fst (pipeline_block silent_env [26, 69] acquired_world)) =
     results_block export_ui (Some (lit ''a.webm'')) []
       (fst (pipeline_block silent_env [26, 69] acquired_world))"
proof -
  have a: "write_temp silent_env (trace acquired_world) [26, 69] = Inr tmp"
    by (simp add: tmp_def silent_env_def)
  have b: "whisper silent_env (trace acquired_world @ [WriteTemp [26, 69]]) tmp = Inr []"
    by (simp add: silent_env_def)
  have s: "audio_data (session acquired_world) = Holds (Some [26, 69]) \<and>
      file_name (session acquired_world) = Holds (Some (lit ''a.webm'')) \<and>
      transcription (session acquired_world) = Holds None \<and>
      summary (session acquired_world) = Holds None \<and>
      flashcards (session acquired_world) = Holds None"
    by (simp add: acquired_world_def)
  have t: "trace acquired_world = []"
    by (simp add: acquired_world_def)
  show ?thesis
    using a b s
      empty_transcript_skips_summary_and_flashcards
        [OF a b refl, of "Some (lit ''a.webm'')" idle_ui demo_env export_ui]
    by (simp add: t)
qed

text \<open>
  C4 says that the pipeline summarizes and generates flashcards whenever the
  transcription returns a transcript. It does not when the transcript returned is the
  empty string: the run below ends after the transcription, with no summary, no
  flashcards and no call beyond those of \<open>transcribe_with_whisper\<close>.
\<close>

theorem returned_transcript_need_not_run_both_counterexample:
  "fst (transcribe_with_whisper silent_env [26, 69] acquired_world) = Inr (Some []) \<and>
   snd (script silent_env idle_ui acquired_world) = Finished None \<and>
   summary (session (fst (script silent_env idle_ui acquired_world))) = Holds None \<and>
   flashcards (session (fst (script silent_env idle_ui acquired_world))) = Holds None \<and>
   trace (fst (script silent_env idle_ui acquired_world)) =
     [WriteTemp [26, 69], Transcribe tmp, OsRemove tmp]"
proof -
  have a: "write_temp silent_env (trace acquired_world) [26, 69] = Inr tmp"
    by (simp add: tmp_def silent_env_def)
  have t: "transcribe_with_whisper silent_env [26, 69] acquired_world =
      (Inr (Some []), transcribed_world)"
    using transcribe_with_whisper_eq [OF a]
    by (simp add: silent_env_def attempt_trace_def acquired_world_def transcribed_world_def)
  have "script silent_env idle_ui acquired_world = pipeline_block silent_env [26, 69] acquired_world"
    by (rule script_pipeline) (simp_all add: acquired_world_def)
  also have "\<dots> = (transcribed_world\<lparr>session := (session transcribed_world)
                        \<lparr>transcription := Holds (Some [])\<rparr>\<rparr>, Finished None)"
    using t by (rule pipeline_block_falsy) simp
  finally show ?thesis
    using t by (simp add: transcribed_world_def acquired_world_def)
qed

text \<open>
  C4, as the code has it. When the transcription returns a non-empty transcript and
  \<open>load_models\<close> hands out the pipelines in \<open>generate_summary\<close>, the pipeline calls the
  summarizer and then \<open>generate_flashcards\<close> on the transcript, whatever the summarizer
  did: its exception stores \<open>None\<close> as the summary and nothing more. Whatever
  \<open>generate_flashcards\<close> does then, the transcript and the summary stored stay.
\<close>

theorem nonempty_transcript_runs_summary_and_flashcards:
  assumes "transcribe_with_whisper env audio w = (Inr (Some text), w1)"
    and "text \<noteq> []"
    and "load_models env (trace w1) = None"
    and "summ = (case summarizer env (trace w1 @ [LoadModels]) text of
                   Inr s \<Rightarrow> Some s | Inl e \<Rightarrow> None)"
    and "w4 = w1\<lparr>trace := trace w1 @ [LoadModels, Summarize text] @
                    (case summarizer env (trace w1 @ [LoadModels]) text of
                       Inr s \<Rightarrow> []
                     | Inl e \<Rightarrow> [StError (lit ''Summary failed: '' @ message e)]),
                  session := (session w1)
                    \<lparr>transcription := Holds (Some text), summary := Holds summ\<rparr>\<rparr>"
    and "r = pipeline_block env audio w"
  shows "r = (case generate_flashcards env text w4 of
                (Inl e, w5) \<Rightarrow> (w5, Raised e)
              | (Inr cards, w5) \<Rightarrow>
                  (w5\<lparr>session := (session w5)\<lparr>flashcards := Holds (Some cards)\<rparr>\<rparr>, Rerun)) \<and>
     transcription (session (fst r)) = Holds (Some text) \<and>
     summary (session (fst r)) = Holds summ \<and>
     take (Suc (length (trace w4))) (trace (fst r)) = trace w4 @ [LoadModels]"
proof -
  have r: "r = (case generate_flashcards env text w4 of
                (Inl e, w5) \<Rightarrow> (w5, Raised e)
              | (Inr cards, w5) \<Rightarrow>
                  (w5\<lparr>session := (session w5)\<lparr>flashcards := Holds (Some cards)\<rparr>\<rparr>, Rerun))"
    unfolding assms(4,5,6) by (rule pipeline_block_truthy [OF assms(1,2,3)])
  obtain res w5 where g: "generate_flashcards env text w4 = (res, w5)"
    by (cases "generate_flashcards env text w4")
  have s5: "session w5 = session w4"
    using generate_flashcards_session [of env "text" w4] g by simp
  obtain rest where t5: "trace w5 = trace w4 @ LoadModels # rest"
    using generate_flashcards_trace [of env "text" w4] g by auto
  have s4: "transcription (session w4) = Holds (Some text)" "summary (session w4) = Holds summ"
    unfolding assms(5) by simp_all
  show ?thesis
  proof (cases res)
    case (Inl e)
    then show ?thesis using r g s5 t5 s4 by simp
  next
    case (Inr cards)
    then show ?thesis using r g s5 t5 s4 by simp
  qed
qed

theorem nonempty_transcript_runs_summary_and_flashcards_witness:
  "transcribe_with_whisper no_summary_env [26, 69] acquired_world =
     (Inr (Some heard), transcribed_world) \<and>
   load_models no_summary_env (trace transcribed_world) = None \<and>
   summarizer no_summary_env (trace transcribed_world @ [LoadModels]) heard = Inl boom \<and>
   summary (session (fst (pipeline_block no_summary_env [26, 69] acquired_world))) = Holds None \<and>
   flashcards (session (fst (pipeline_block no_summary_env [26, 69] acquired_world))) =
     Holds (Some one_card) \<and>
   snd (pipeline_block no_summary_env [26, 69] acquired_world) = Rerun \<and>
   transcribe_with_whisper no_tokens_env [26, 69] acquired_world =
     (Inr (Some heard), transcribed_world) \<and>
   load_models no_tokens_env (trace transcribed_world) = None \<and>
   summary (session (fst (pipeline_block no_tokens_env [26, 69] acquired_world))) =
     Holds (Some (lit ''gist'')) \<and>
   flashcards (session (fst (pipeline_block no_tokens_env [26, 69] acquired_world))) =
     Holds None \<and>
   snd (pipeline_block no_tokens_env [26, 69] acquired_world) = Raised boom"
proof -
  have ne: "heard \<noteq> []"
    by (simp add: heard_def lit_def)
  have t1: "transcribe_with_whisper no_summary_env [26, 69] acquired_world =
      (Inr (Some heard), transcribed_world)"
    using transcribe_with_whisper_eq [of no_summary_env acquired_world "[26, 69]" tmp]
    by (simp add: no_summary_env_def tmp_def heard_def attempt_trace_def acquired_world_def
        transcribed_world_def)
  have t2: "transcribe_with_whisper no_tokens_env [26, 69] acquired_world =
      (Inr (Some heard), transcribed_world)"
    using transcribe_with_whisper_eq [of no_tokens_env acquired_world "[26, 69]" tmp]
    by (simp add: no_tokens_env_def tmp_def heard_def attempt_trace_def acquired_world_def
        transcribed_world_def)
  have l1: "load_models no_summary_env (trace transcribed_world) = None"
    by (simp add: no_summary_env_def)
  have l2: "load_models no_tokens_env (trace transcribed_world) = None"
    by (simp add: no_tokens_env_def)
  have s1: "summarizer no_summary_env h t = Inl boom" for h t
    by (simp add: no_summary_env_def)
  have s2: "summarizer no_tokens_env h t = Inr (lit ''gist'')" for h t
    by (simp add: no_tokens_env_def)
  have g1: "generate_flashcards no_summary_env heard w =
      (Inr one_card,
       w\<lparr>trace := trace w @ [LoadModels, SentTokenize heard] @
                     map AskQuestion (candidates (dot_sentences [] heard))\<rparr>)" for w
  proof -
    have "qg_outcomes no_summary_env h ss = map (\<lambda>s. Some (lit '' what? '')) ss" for h ss
      by (rule qg_outcomes_const) (simp add: no_summary_env_def)
    then show ?thesis
      using generate_flashcards_eq [of no_summary_env w heard "dot_sentences [] heard"]
        cards_heard
      by (simp add: no_summary_env_def candidates_heard)
  qed
  have g2: "generate_flashcards no_tokens_env heard w =
      (Inl boom, w\<lparr>trace := trace w @ [LoadModels, SentTokenize heard]\<rparr>)" for w
    by (simp add: generate_flashcards_def no_tokens_env_def emit_def)
  have a: "summary (session (fst (pipeline_block no_summary_env [26, 69] acquired_world))) =
        Holds None \<and>
      flashcards (session (fst (pipeline_block no_summary_env [26, 69] acquired_world))) =
        Holds (Some one_card) \<and>
      snd (pipeline_block no_summary_env [26, 69] acquired_world) = Rerun"
    using nonempty_transcript_runs_summary_and_flashcards [OF t1 ne l1 refl refl refl]
    by (simp add: s1 g1)
  have b: "summary (session (fst (pipeline_block no_tokens_env [26, 69] acquired_world))) =
        Holds (Some (lit ''gist'')) \<and>
      flashcards (session (fst (pipeline_block no_tokens_env [26, 69] acquired_world))) =
        Holds None \<and>
      snd (pipeline_block no_tokens_env [26, 69] acquired_world) = Raised boom"
    using nonempty_transcript_runs_summary_and_flashcards [OF t2 ne l2 refl refl refl]
    by (simp add: s2 g2 transcribed_world_def acquired_world_def)
  show ?thesis
    using t1 t2 l1 l2 s1 a b by simp
qed

section \<open>Claims about the session\<close>

text \<open>
  C6. From any session, \<open>reset_app\<close> leaves none of the five keys: the session is that
  of a session just opened, and the state-management loop of the next run sets each of
  the five to \<open>None\<close>, as it does on the first run of a new session.
\<close>

theorem reset_app_clears_session:
  "reset_app st = new_session \<and>
   audio_data (reset_app st) = Absent \<and> file_name (reset_app st) = Absent \<and>
   transcription (reset_app st) = Absent \<and> summary (reset_app st) = Absent \<and>
   flashcards (reset_app st) = Absent \<and>
   init_state (reset_app st) = init_state new_session \<and>
   init_state (reset_app st) =
     \<lparr>audio_data = Holds None, file_name = Holds None, transcription = Holds None,
      summary = Holds None, flashcards = Holds None\<rparr>"
  by (simp add: reset_app_eq) (simp add: new_session_def init_state_eq)

theorem reset_app_clears_session_witness:
  "reset_app (session ready_world) = new_session \<and>
   init_state (reset_app (session ready_world)) =
     \<lparr>audio_data = Holds None, file_name = Holds None, transcription = Holds None,
      summary = Holds None, flashcards = Holds None\<rparr>"
  using reset_app_clears_session [of "session ready_world"] by blast

text \<open>
  C7. Once the transcript of the session is a string, empty or not, every interaction
  that is not a click on "Start Over" leaves it as it is and makes no call at all, so in
  particular none to the transcription: this holds along any sequence of such
  interactions, whatever the collaborators and the widgets do. A click on "Start Over"
  ends it: the transcript is \<open>None\<close> after that interaction.
\<close>

theorem transcript_never_recomputed:
  assumes "transcription (session w) = Holds (Some t)"
    and "list_all (\<lambda>step. \<not> start_over (snd step)) steps"
  shows "transcription (session (interactions steps w)) = Holds (Some t) \<and>
         trace (interactions steps w) = trace w \<and> files (interactions steps w) = files w \<and>
         (start_over ui' \<longrightarrow>
            transcription (session (fst (interaction env' ui' w))) = Holds None)"
proof -
  have "transcription (session (fst (interaction env' ui' w))) = Holds None" if "start_over ui'"
    using that
    by (simp add: interaction_def reset_app_eq script_def new_session_def init_state_eq
        input_block_def Let_def split: option.splits prod.splits)
  moreover have "transcription (session (interactions steps w)) = Holds (Some t) \<and>
         trace (interactions steps w) = trace w \<and> files (interactions steps w) = files w"
  using assms
proof (induction steps arbitrary: w)
  case Nil
  then show ?case by simp
next
  case (Cons step steps)
  obtain env ui where step: "step = (env, ui)"
    by (cases step)
  have no: "\<not> start_over ui" and rest: "list_all (\<lambda>step. \<not> start_over (snd step)) steps"
    using Cons.prems(2) step by simp_all
  let ?w = "fst (interaction env ui w)"
  have "interaction env ui w = script env ui w"
    using no by (simp add: interaction_def)
  then have k: "transcription (session ?w) = Holds (Some t) \<and> trace ?w = trace w \<and>
      files ?w = files w"
    using script_keeps_transcript [OF Cons.prems(1)] by simp
  then have "transcription (session (interactions steps ?w)) = Holds (Some t) \<and>
      trace (interactions steps ?w) = trace ?w \<and> files (interactions steps ?w) = files ?w"
    using Cons.IH rest by blast
  then show ?case
    using k step by simp
qed
  ultimately show ?thesis by blast
qed

theorem transcript_never_recomputed_witness:
  "transcription (session ready_world) = Holds (Some (lit ''hello'')) \<and>
   list_all (\<lambda>step. \<not> start_over (snd step)) [(demo_env, export_ui), (deaf_env, idle_ui)] \<and>
   transcription (session (interactions [(demo_env, export_ui), (deaf_env, idle_ui)] ready_world)) =
     Holds (Some (lit ''hello'')) \<and>
   trace (interactions [(demo_env, export_ui), (deaf_env, idle_ui)] ready_world) = [] \<and>
   start_over (idle_ui\<lparr>start_over := True\<rparr>) \<and>
   transcription
     (session (fst (interaction demo_env (idle_ui\<lparr>start_over := True\<rparr>) ready_world))) =
     Holds None"
proof -
  have a: "transcription (session ready_world) = Holds (Some (lit ''hello''))"
    by (simp add: ready_world_def)
  have b: "list_all (\<lambda>step. \<not> start_over (snd step)) [(demo_env, export_ui), (deaf_env, idle_ui)]"
    by (simp add: export_ui_def idle_ui_def)
  have c: "trace ready_world = []"
    by (simp add: ready_world_def)
  show ?thesis
    using a b c
      transcript_never_recomputed [OF a b, of "idle_ui\<lparr>start_over := True\<rparr>" demo_env]
    by simp
qed

section \<open>Claim about the report\<close>

text \<open>
  C8. On a session with results, a run with "Export All" leaves the session, the files
  and the record of calls as they are and offers the report
  \<open>full_report\<close> of the file name, the transcript, the summary, the flashcards and the
  time \<open>now_text\<close>. Any run that exports a session with the same four values at the
  same time offers the same text, whatever the audio, the collaborators, the other
  widgets and the calls made before; so does a second run on the session the first one
  left. The text names the summary, or \<open>No summary\<close> when the summary is \<open>None\<close> or
  empty, and ends with one block per card, in order, the block at position \<open>i\<close> (from 0)
  carrying the decimal digits of \<open>i + 1\<close>: the first card is card 1.
\<close>

theorem export_report_is_pure:
  assumes "audio_data (session w) = Holds (Some audio)"
    and "file_name (session w) = Holds name"
    and "transcription (session w) = Holds (Some text)"
    and "summary (session w) = Holds summ"
    and "flashcards (session w) = Holds cards"
    and "export_all ui"
    and "report = full_report name (now_text ui) text summ cards"
    and "cs = (case cards of None \<Rightarrow> [] | Some cs \<Rightarrow> cs)"
  shows "script env ui w =
       (w, Finished (Some (lit ''lecture_analysis_'' @ now_stamp ui @ lit ''.txt'', report))) \<and>
     (audio_data (session w') = Holds (Some audio') \<and> file_name (session w') = Holds name \<and>
      transcription (session w') = Holds (Some text) \<and> summary (session w') = Holds summ \<and>
      flashcards (session w') = Holds cards \<and> export_all ui' \<and> now_text ui' = now_text ui \<longrightarrow>
        report_text (snd (script env' ui' w')) = Some report) \<and>
     (export_all ui' \<and> now_text ui' = now_text ui \<longrightarrow>
        report_text (snd (script env' ui' (fst (script env ui w)))) = Some report) \<and>
     report =
       lit ''LECTURE ANALYSIS REPORT'' @ nl @
       lit ''File: '' @ (case name of None \<Rightarrow> lit ''None'' | Some n \<Rightarrow> n) @ nl @
       lit ''Generated: '' @ now_text ui @ nl @ nl @
       lit ''=== TRANSCRIPTION ==='' @ nl @ text @ nl @ nl @
       lit ''=== SUMMARY ==='' @ nl @
       (case summ of None \<Rightarrow> lit ''No summary''
        | Some s \<Rightarrow> if s = [] then lit ''No summary'' else s) @ nl @ nl @
       lit ''=== FLASHCARDS ==='' @ nl @
       concat (map card_block (zip [0..<length cs] cs)) \<and>
     card_block (i, c) =
       nl @ lit ''Card '' @ str_nat (i + 1) @ nl @ lit ''Q: '' @ question c @ nl @
       lit ''A: '' @ answer c @ nl \<and>
     decimal (str_nat (i + 1)) = i + 1 \<and> str_nat (0 + 1) = lit ''1''"
proof -
  have run: "script e u v =
      (v, Finished (Some (lit ''lecture_analysis_'' @ now_stamp u @ lit ''.txt'',
                          full_report name (now_text u) text summ cards)))"
    if "audio_data (session v) = Holds (Some a)" "file_name (session v) = Holds name"
      "transcription (session v) = Holds (Some text)" "summary (session v) = Holds summ"
      "flashcards (session v) = Holds cards" "export_all u"
    for e u v a
  proof -
    have "script e u v = results_block u name text v"
      using that by (intro script_results [where audio = a]) simp_all
    then show ?thesis
      using that by (simp add: results_block_def)
  qed
  have 1: "script env ui w =
       (w, Finished (Some (lit ''lecture_analysis_'' @ now_stamp ui @ lit ''.txt'', report)))"
    unfolding assms(7) using assms(1-6) by (rule run)
  have 2: "report_text (snd (script env' ui' w')) = Some report"
    if "audio_data (session w') = Holds (Some audio') \<and> file_name (session w') = Holds name \<and>
      transcription (session w') = Holds (Some text) \<and> summary (session w') = Holds summ \<and>
      flashcards (session w') = Holds cards \<and> export_all ui' \<and> now_text ui' = now_text ui"
    using that run [of w' audio' ui' env'] assms(7) by simp
  have 3: "report_text (snd (script env' ui' (fst (script env ui w)))) = Some report"
    if "export_all ui' \<and> now_text ui' = now_text ui"
    using that run [of w audio ui' env'] assms(1-5,7) 1 by simp
  have 4: "report =
       lit ''LECTURE ANALYSIS REPORT'' @ nl @
       lit ''File: '' @ (case name of None \<Rightarrow> lit ''None'' | Some n \<Rightarrow> n) @ nl @
       lit ''Generated: '' @ now_text ui @ nl @ nl @
       lit ''=== TRANSCRIPTION ==='' @ nl @ text @ nl @ nl @
       lit ''=== SUMMARY ==='' @ nl @
       (case summ of None \<Rightarrow> lit ''No summary''
        | Some s \<Rightarrow> if s = [] then lit ''No summary'' else s) @ nl @ nl @
       lit ''=== FLASHCARDS ==='' @ nl @
       concat (map card_block (zip [0..<length cs] cs))"
    unfolding assms(7) full_report_def report_cards_eq assms(8) by simp
  have 5: "card_block (i, c) =
       nl @ lit ''Card '' @ str_nat (i + 1) @ nl @ lit ''Q: '' @ question c @ nl @
       lit ''A: '' @ answer c @ nl"
    by (simp add: card_block_def)
  have 6: "decimal (str_nat (i + 1)) = i + 1"
    by (rule decimal_str_nat)
  have 7: "str_nat (0 + 1) = lit ''1''"
    by (simp add: str_nat_digit lit_def)
  show ?thesis
    using 1 2 3 4 5 6 7 by blast
qed

theorem export_report_is_pure_witness:
  "audio_data (session ready_world) = Holds (Some [26, 69]) \<and>
   file_name (session ready_world) = Holds (Some (lit ''a.webm'')) \<and>
   transcription (session ready_world) = Holds (Some (lit ''hello'')) \<and>
   summary (session ready_world) = Holds None \<and>
   export_all export_ui \<and>
   full_report (Some (lit ''a.webm'')) (now_text export_ui) (lit ''hello'') None
     (Some [\<lparr>question = lit ''q1'', answer = lit ''a1''\<rparr>,
            \<lparr>question = lit ''q2'', answer = lit ''a2''\<rparr>]) = demo_report \<and>
   script demo_env export_ui ready_world =
     (ready_world, Finished (Some (lit ''lecture_analysis_20240101_120000.txt'', demo_report))) \<and>
   report_text
     (snd (script deaf_env (export_ui\<lparr>now_stamp := lit ''20240101_120001''\<rparr>)
             (ready_world\<lparr>session := (session ready_world)\<lparr>audio_data := Holds (Some [1])\<rparr>,
                           files := {tmp}, trace := [LoadModels]\<rparr>))) = Some demo_report \<and>
   report_text (snd (script deaf_env export_ui (fst (script demo_env export_ui ready_world)))) =
     Some demo_report"
proof -
  let ?cards = "[\<lparr>question = lit ''q1'', answer = lit ''a1''\<rparr>,
                 \<lparr>question = lit ''q2'', answer = lit ''a2''\<rparr>]"
  let ?w' = "ready_world\<lparr>session := (session ready_world)\<lparr>audio_data := Holds (Some [1])\<rparr>,
                         files := {tmp}, trace := [LoadModels]\<rparr>"
  let ?ui' = "export_ui\<lparr>now_stamp := lit ''20240101_120001''\<rparr>"
  have a: "audio_data (session ready_world) = Holds (Some [26, 69])"
    and b: "file_name (session ready_world) = Holds (Some (lit ''a.webm''))"
    and c: "transcription (session ready_world) = Holds (Some (lit ''hello''))"
    and d: "summary (session ready_world) = Holds None"
    and e: "flashcards (session ready_world) = Holds (Some ?cards)"
    by (simp_all add: ready_world_def)
  have f: "export_all export_ui"
    by (simp add: export_ui_def)
  have n: "lit ''lecture_analysis_'' @ now_stamp export_ui @ lit ''.txt'' =
      lit ''lecture_analysis_20240101_120000.txt''"
    by (simp add: export_ui_def idle_ui_def lit_def)
  have r: "full_report (Some (lit ''a.webm'')) (now_text export_ui) (lit ''hello'') None
      (Some ?cards) = demo_report"
    by (simp add: full_report_def demo_report_def export_ui_def idle_ui_def str_nat_digit lit_def)
  have w': "audio_data (session ?w') = Holds (Some [1]) \<and>
      file_name (session ?w') = Holds (Some (lit ''a.webm'')) \<and>
      transcription (session ?w') = Holds (Some (lit ''hello'')) \<and>
      summary (session ?w') = Holds None \<and> flashcards (session ?w') = Holds (Some ?cards) \<and>
      export_all ?ui' \<and> now_text ?ui' = now_text export_ui"
    by (simp add: ready_world_def export_ui_def)
  note th = export_report_is_pure [OF a b c d e f r [symmetric] refl]
  have 1: "script demo_env export_ui ready_world =
     (ready_world, Finished (Some (lit ''lecture_analysis_20240101_120000.txt'', demo_report)))"
    using th [of demo_env] by (simp only: n)
  have 2: "report_text (snd (script deaf_env ?ui' ?w')) = Some demo_report"
    using th [of _ ?w' "[1]" ?ui' deaf_env] w' by blast
  have 3: "report_text (snd (script deaf_env export_ui (fst (script demo_env export_ui ready_world)))) =
     Some demo_report"
    using th [of demo_env _ _ export_ui deaf_env] f by blast
  show ?thesis
    using a b c d f r 1 2 3 by blast
qed

end
